theory Spec2Isabelle
  imports Complex_Main
begin

section \<open>Errors\<close>

text \<open>
  Every exception the Python raises is a value. \<open>ValueError\<close> is raised by
  \<open>get_recommendations\<close> for an unknown user and by the similarity index for an unknown
  item; \<open>DBError\<close> stands for whatever the database driver raises when the store cannot
  be reached; \<open>FitError\<close> and \<open>IOError\<close> are failures of training and of writing
  \<open>recommender.pkl\<close>; \<open>AttributeError\<close> is what reading \<open>trainset\<close> or \<open>sim\<close> of a
  model that was never fitted raises.
\<close>

datatype error = ValueError | DBError | FitError | IOError | AttributeError | PredictionImpossible

section \<open>Strings\<close>

text \<open>
  Python's \<open>s.split(sep)\<close> for a one-character separator: the result is never empty
  (\<open>''''.split('|')\<close> is \<open>['''']\<close>).
\<close>

fun split :: "char \<Rightarrow> string \<Rightarrow> string list" where
  "split c [] = [[]]"
| "split c (x # xs) =
     (if x = c then [] # split c xs
      else (case split c xs of [] \<Rightarrow> [[x]] | w # ws \<Rightarrow> (x # w) # ws))"

text \<open>Python's \<open>sep.join(xs)\<close>.\<close>

fun join :: "string \<Rightarrow> string list \<Rightarrow> string" where
  "join sep [] = []"
| "join sep [x] = x"
| "join sep (x # y # ys) = x @ sep @ join sep (y # ys)"

text \<open>
  A Python \<open>set\<close> built from a list is modelled as the duplicate-free list of its
  elements, in order of first occurrence. (CPython iterates a set in hash order; no
  property below depends on that order.)
\<close>

definition first_occurrences :: "'a list \<Rightarrow> 'a list" where
  "first_occurrences xs = rev (remdups (rev xs))"

section \<open>The store and the rating feed (database.py, upload\_data.py)\<close>

text \<open>The five tables the code reads and writes.\<close>

record database =
  User :: "int list"
  Movie :: "(int \<times> string) list"
  Genre :: "(int \<times> string) list"
  Movie_Genre :: "(int \<times> int) list"
  Rating :: "(int \<times> int \<times> real) list"

text \<open>
  One row of the data frame \<open>fetch_data_from_db\<close> returns. The query already names
  the rating column \<open>rating\<close>; the fields carry the names \<open>load_data\<close> gives them.
\<close>

record row =
  userId :: int
  movieId :: int
  rating :: real
  title :: string
  genres :: string

text \<open>
  The three inner joins of the query: a rating row survives only with a movie row, a
  movie-genre row and a genre row that match.
\<close>

definition joined :: "database \<Rightarrow> ((int \<times> int \<times> real \<times> string) \<times> string) list" where
  "joined d =
     concat (map (\<lambda>(u, m, v).
       concat (map (\<lambda>(mid, t).
         if mid = m then
           concat (map (\<lambda>(mgm, mgg).
             if mgm = mid then
               concat (map (\<lambda>(gid, gname).
                 if gid = mgg then [((u, m, v, t), gname)] else []) (Genre d))
             else []) (Movie_Genre d))
         else []) (Movie d))) (Rating d))"

text \<open>
  \<open>GROUP BY r.user_id, r.movie_id, r.value, m.title\<close> with
  \<open>STRING_AGG(g.name, '|')\<close>: one row per group, the genre names of the group joined
  with a bar. SQL leaves the order of groups and of the aggregated names open; the model
  takes the order of the join.
\<close>

definition query :: "database \<Rightarrow> row list" where
  "query d =
     map (\<lambda>(u, m, v, t).
           \<lparr>userId = u, movieId = m, rating = v, title = t,
            genres = join ''|'' (map snd (filter (\<lambda>j. fst j = (u, m, v, t)) (joined d)))\<rparr>)
         (first_occurrences (map fst (joined d)))"

text \<open>The connection either fails or gives access to the tables.\<close>

datatype connection = Unreachable | Connected database

definition fetch_data_from_db :: "connection \<Rightarrow> error + row list" where
  "fetch_data_from_db c = (case c of Unreachable \<Rightarrow> Inl DBError | Connected d \<Rightarrow> Inr (query d))"

text \<open>
  The bulk loader of upload\_data.py, for the movie-genre table: every genre token of
  every CSV row gives one pair, except the token \<open>(no genres listed)\<close>. The loader's
  \<open>genre_dict\<close> (name to id) is a parameter.
\<close>

definition movie_genre_pairs :: "(string \<Rightarrow> int) \<Rightarrow> row list \<Rightarrow> (int \<times> int) list" where
  "movie_genre_pairs genre_dict df =
     concat (map (\<lambda>r. map (\<lambda>g. (movieId r, genre_dict g))
                         (filter (\<lambda>g. g \<noteq> ''(no genres listed)'') (split CHR ''|'' (genres r)))) df)"

section \<open>Dataset builder (load\_data)\<close>

record movie_record =
  mr_title :: string
  mr_genres :: string

text \<open>
  \<open>df.pivot_table(index="userId", columns="movieId", values="rating")\<close>: the sorted
  distinct users, the sorted distinct movies, and in each cell the mean (the default
  aggregation) of the ratings of that user for that movie, absent when there is none.
\<close>

record rating_matrix =
  index :: "int list"
  columns :: "int list"
  cell :: "int \<Rightarrow> int \<Rightarrow> real option"

definition mean :: "real list \<Rightarrow> real" where
  "mean rs = sum_list rs / real (length rs)"

definition pivot :: "(int \<times> int \<times> real) list \<Rightarrow> rating_matrix" where
  "pivot ts =
     \<lparr>index = sort (remdups (map fst ts)),
      columns = sort (remdups (map (\<lambda>t. fst (snd t)) ts)),
      cell = (\<lambda>u m. let rs = map (\<lambda>t. snd (snd t)) (filter (\<lambda>t. fst t = u \<and> fst (snd t) = m) ts)
                     in if rs = [] then None else Some (mean rs))\<rparr>"

definition triples :: "row list \<Rightarrow> (int \<times> int \<times> real) list" where
  "triples df = map (\<lambda>r. (userId r, movieId r, rating r)) df"

definition pivot_table :: "row list \<Rightarrow> rating_matrix" where
  "pivot_table df = pivot (triples df)"

text \<open>\<open>df.drop_duplicates(subset=["movieId"])\<close>: the first row of each movie.\<close>

fun drop_duplicates :: "int list \<Rightarrow> row list \<Rightarrow> row list" where
  "drop_duplicates seen [] = []"
| "drop_duplicates seen (r # rs) =
     (if movieId r \<in> set seen then drop_duplicates seen rs
      else r # drop_duplicates (movieId r # seen) rs)"

text \<open>The dictionary \<open>movie_info_local\<close>, in insertion order.\<close>

definition movie_info_of :: "row list \<Rightarrow> (int \<times> movie_record) list" where
  "movie_info_of df =
     map (\<lambda>r. (movieId r, \<lparr>mr_title = title r, mr_genres = genres r\<rparr>)) (drop_duplicates [] df)"

text \<open>
  The loop of \<open>load_data\<close> that fills the global \<open>movie_genres_cache\<close>: every movie of
  the new index gets the set of its genre tokens.
\<close>

fun fill_cache :: "(int \<rightharpoonup> string list) \<Rightarrow> (int \<times> movie_record) list \<Rightarrow> (int \<rightharpoonup> string list)" where
  "fill_cache cache [] = cache"
| "fill_cache cache ((movie_id, info) # rest) =
     fill_cache (cache(movie_id \<mapsto> first_occurrences (split CHR ''|'' (mr_genres info)))) rest"

text \<open>
  \<open>load_data\<close> takes the connection and the genre cache as it is, and returns the data
  frame, the movie index, the rating matrix and the cache as it leaves it. The only
  failure is the one of the fetch, before anything is written.
\<close>

definition load_data ::
  "connection \<Rightarrow> (int \<rightharpoonup> string list) \<Rightarrow>
   error + (row list \<times> (int \<times> movie_record) list \<times> rating_matrix \<times> (int \<rightharpoonup> string list))" where
  "load_data c cache =
     (case fetch_data_from_db c of
        Inl e \<Rightarrow> Inl e
      | Inr df \<Rightarrow>
          (let movie_info_local = movie_info_of df;
               rating_matrix_local = pivot_table df
           in Inr (df, movie_info_local, rating_matrix_local, fill_cache cache movie_info_local)))"

section \<open>Selection of the largest (heapq.nlargest)\<close>

text \<open>
  \<open>heapq.nlargest(n, xs, key)\<close> is documented as \<open>sorted(xs, key=key, reverse=True)[:n]\<close>:
  a stable sort, larger keys first, equal keys in their input order; for \<open>n \<le> 0\<close> the result
  is empty.
\<close>

definition nlargest :: "int \<Rightarrow> ('a \<Rightarrow> real) \<Rightarrow> 'a list \<Rightarrow> 'a list" where
  "nlargest n key xs = take (nat n) (sort_key (\<lambda>x. - key x) xs)"

section \<open>The trained model (surprise.KNNBasic as the code uses it)\<close>

text \<open>
  Modelled from the spec: the trained similarity index (sections 3, 4.4 and 4.5). The
  library that implements it is not part of the repository; the code reads three things
  of a fitted model: \<open>trainset.to_inner_iid\<close>, which raises for an item absent from the
  index, the similarity matrix \<open>sim\<close> over inner ids, and \<open>predict\<close>. The training
  set keeps the (user, item, rating) rows it was built from and the rating scale of the
  reader; inner ids are positions in order of first appearance.
\<close>

record trainset =
  raw_ratings :: "(int \<times> int \<times> real) list"
  rating_scale :: "real \<times> real"

fun index_of :: "'a \<Rightarrow> 'a list \<Rightarrow> nat option" where
  "index_of x [] = None"
| "index_of x (y # ys) = (if x = y then Some 0 else map_option Suc (index_of x ys))"

definition to_inner_uid :: "trainset \<Rightarrow> int \<Rightarrow> error + nat" where
  "to_inner_uid ts u =
     (case index_of u (first_occurrences (map fst (raw_ratings ts))) of
        None \<Rightarrow> Inl ValueError | Some n \<Rightarrow> Inr n)"

definition to_inner_iid :: "trainset \<Rightarrow> int \<Rightarrow> error + nat" where
  "to_inner_iid ts i =
     (case index_of i (first_occurrences (map (\<lambda>t. fst (snd t)) (raw_ratings ts))) of
        None \<Rightarrow> Inl ValueError | Some n \<Rightarrow> Inr n)"

text \<open>
  Modelled from the spec: the global mean rating of the trained model (section 3). With
  no rating at all the quotient of the library is not a number; the model gives 0 there.
\<close>

definition global_mean :: "trainset \<Rightarrow> real" where
  "global_mean ts =
     (if raw_ratings ts = [] then 0 else mean (map (\<lambda>t. snd (snd t)) (raw_ratings ts)))"

text \<open>
  The model object: \<open>KNNBasic(k=10, min_k=3, sim_options=...)\<close> creates it unfitted
  (no training set), \<open>fit\<close> stores the training set and the similarity matrix.
  \<open>min_sim\<close> is the configured minimum similarity of section 4.4.
\<close>

record KNNBasic =
  knn_k :: nat
  knn_min_k :: nat
  min_sim :: real
  knn_trainset :: "trainset option"
  sim :: "nat \<Rightarrow> nat \<Rightarrow> real"

text \<open>
  Modelled from the spec: the candidate neighbours of section 4.4, the items the user
  has rated, each with its similarity to the target item and the user's rating. An item
  of the user's that the index does not know has no defined similarity and is excluded.
\<close>

definition neighbors :: "KNNBasic \<Rightarrow> trainset \<Rightarrow> int \<Rightarrow> nat \<Rightarrow> (real \<times> real) list" where
  "neighbors a ts u x =
     concat (map (\<lambda>(u', i, r).
        if u' = u then (case to_inner_iid ts i of Inl _ \<Rightarrow> [] | Inr x2 \<Rightarrow> [(sim a x x2, r)])
        else []) (raw_ratings ts))"

text \<open>
  Modelled from the spec: the qualifying neighbours of section 4.4: up to \<open>k\<close> of the
  highest similarity, retaining only those above the configured minimum.
\<close>

definition qualifying :: "KNNBasic \<Rightarrow> trainset \<Rightarrow> int \<Rightarrow> nat \<Rightarrow> (real \<times> real) list" where
  "qualifying a ts u x =
     filter (\<lambda>(s, r). s > min_sim a) (nlargest (int (knn_k a)) fst (neighbors a ts u x))"

text \<open>
  Modelled from the spec: the estimate of section 4.4. An unknown user or item, fewer
  than \<open>min_k\<close> qualifying neighbours, or a zero total weight make the weighted average
  impossible.
\<close>

definition estimate :: "KNNBasic \<Rightarrow> trainset \<Rightarrow> int \<Rightarrow> int \<Rightarrow> error + real" where
  "estimate a ts u i =
     (case to_inner_uid ts u of
        Inl _ \<Rightarrow> Inl PredictionImpossible
      | Inr _ \<Rightarrow>
         (case to_inner_iid ts i of
            Inl _ \<Rightarrow> Inl PredictionImpossible
          | Inr x \<Rightarrow>
             (let q = qualifying a ts u x;
                  sum_sim = sum_list (map fst q);
                  sum_ratings = sum_list (map (\<lambda>(s, r). s * r) q)
              in if length q < knn_min_k a \<or> sum_sim = 0 then Inl PredictionImpossible
                 else Inr (sum_ratings / sum_sim))))"

text \<open>
  Modelled from the spec: \<open>predict\<close> of section 4.4. When the weighted average is
  impossible the global mean is the fallback; the estimate is clamped to the rating
  scale. Only a model that was never fitted fails.
\<close>

definition predict :: "KNNBasic \<Rightarrow> int \<Rightarrow> int \<Rightarrow> error + real" where
  "predict a u i =
     (case knn_trainset a of
        None \<Rightarrow> Inl AttributeError
      | Some ts \<Rightarrow>
         (let est = (case estimate a ts u i of Inl _ \<Rightarrow> global_mean ts | Inr e \<Rightarrow> e);
              lower_bound = fst (rating_scale ts);
              higher_bound = snd (rating_scale ts)
          in Inr (max lower_bound (min higher_bound est))))"

section \<open>Process state and collaborators\<close>

text \<open>The file \<open>recommender.pkl\<close>: absent, unreadable, or a pickled model.\<close>

datatype pkl_file = Absent | Corrupt | Pickled KNNBasic

text \<open>
  The module globals \<open>algo\<close>, \<open>data\<close>, \<open>movie_info\<close>, \<open>rating_matrix\<close> and
  \<open>movie_genres_cache\<close>, and the file on disk.
\<close>

record state =
  algo :: "KNNBasic option"
  data :: "row list"
  movie_info :: "(int \<times> movie_record) list"
  rating_matrix :: rating_matrix
  movie_genres_cache :: "int \<rightharpoonup> string list"
  recommender_pkl :: pkl_file

text \<open>
  What the outside world does during one call: the state of the database connection,
  the outcome of \<open>algo.fit\<close> on a training set (the similarity matrix, or a failure), and
  the outcome of writing the file.
\<close>

datatype dump_outcome = Dumped | OpenFailed | WriteFailed

record env =
  conn :: connection
  fit :: "trainset \<Rightarrow> error + (nat \<Rightarrow> nat \<Rightarrow> real)"
  pickle_dump :: dump_outcome

section \<open>Training and loading (retrain\_model, load\_model, module initialisation)\<close>

text \<open>
  \<open>retrain_model\<close>, statement by statement: \<open>load_data\<close> and the assignment of its
  three results to the globals; the reader with scale (0.5, 5.0) and the full training
  set; the new, unfitted \<open>KNNBasic(k=10, min_k=3)\<close> assigned to \<open>algo\<close>; \<open>fit\<close>;
  the dump to \<open>recommender.pkl\<close>. Each failure leaves the state as the statements before
  it made it. The constructor takes no minimum similarity: a neighbour counts when its
  similarity is above zero.
\<close>

definition build_full_trainset :: "row list \<Rightarrow> trainset" where
  "build_full_trainset df = \<lparr>raw_ratings = triples df, rating_scale = (1/2, 5)\<rparr>"

definition retrain_model :: "env \<Rightarrow> state \<Rightarrow> state \<times> (error + KNNBasic)" where
  "retrain_model ev st =
     (case load_data (conn ev) (movie_genres_cache st) of
        Inl e \<Rightarrow> (st, Inl e)
      | Inr (df, mi, rm, cache) \<Rightarrow>
         (let st1 = st\<lparr>movie_genres_cache := cache, data := df, movie_info := mi,
                       rating_matrix := rm\<rparr>;
              trainset = build_full_trainset df;
              a0 = \<lparr>knn_k = 10, knn_min_k = 3, min_sim = 0, knn_trainset = None,
                    sim = (\<lambda>x y. 0)\<rparr>;
              st2 = st1\<lparr>algo := Some a0\<rparr>
          in case fit ev trainset of
               Inl e \<Rightarrow> (st2, Inl e)
             | Inr s \<Rightarrow>
                (let a = a0\<lparr>knn_trainset := Some trainset, sim := s\<rparr>;
                     st3 = st2\<lparr>algo := Some a\<rparr>
                 in case pickle_dump ev of
                      OpenFailed \<Rightarrow> (st3, Inl IOError)
                    | WriteFailed \<Rightarrow> (st3\<lparr>recommender_pkl := Corrupt\<rparr>, Inl IOError)
                    | Dumped \<Rightarrow> (st3\<lparr>recommender_pkl := Pickled a\<rparr>, Inr a))))"

text \<open>
  \<open>load_model\<close>: the pickled model when the file exists and can be read, a retrain
  otherwise. Only \<open>algo\<close> is assigned from the file.
\<close>

definition load_model :: "env \<Rightarrow> state \<Rightarrow> state \<times> (error + unit)" where
  "load_model ev st =
     (case recommender_pkl st of
        Pickled a \<Rightarrow> (st\<lparr>algo := Some a\<rparr>, Inr ())
      | _ \<Rightarrow>
         (case retrain_model ev st of
            (st', Inl e) \<Rightarrow> (st', Inl e)
          | (st', Inr a) \<Rightarrow> (st'\<lparr>algo := Some a\<rparr>, Inr ())))"

text \<open>
  The two statements at the end of the module, run at import:
  \<open>data, movie_info, rating_matrix = load_data()\<close> and \<open>load_model()\<close>. An import that
  raises gives no state.
\<close>

definition module_init :: "env \<Rightarrow> pkl_file \<Rightarrow> error + state" where
  "module_init ev file =
     (case load_data (conn ev) Map.empty of
        Inl e \<Rightarrow> Inl e
      | Inr (df, mi, rm, cache) \<Rightarrow>
         (case load_model ev \<lparr>algo = None, data = df, movie_info = mi, rating_matrix = rm,
                              movie_genres_cache = cache, recommender_pkl = file\<rparr> of
            (st, Inl e) \<Rightarrow> Inl e
          | (st, Inr _) \<Rightarrow> Inr st))"

section \<open>Numbers as text\<close>

text \<open>
  \<open>round(x, 2)\<close> rounds to the nearest, ties to even; it is taken on the real number.
\<close>

definition round_half_even :: "real \<Rightarrow> int" where
  "round_half_even x =
     (let f = \<lfloor>x\<rfloor>; d = x - of_int f
      in if d < 1/2 then f else if d > 1/2 then f + 1 else if even f then f else f + 1)"

definition round2 :: "real \<Rightarrow> real" where
  "round2 x = of_int (round_half_even (x * 100)) / 100"

fun digits :: "nat \<Rightarrow> string" where
  "digits n =
     (if n < 10 then [''0123456789'' ! n]
      else digits (n div 10) @ [''0123456789'' ! (n mod 10)])"

declare digits.simps [simp del]

text \<open>
  A Python float is a binary64 number. A rating, a real number here, is read as the
  float nearest to it, ties to even: a significand of 53 bits, for a subnormal one the
  smallest exponent. (Magnitudes beyond the largest float are not modelled.) A float is a
  real number, and the conversion leaves it as it is; a decimal such as 4.35 is no float,
  the float written 4.35 lies just below it.
\<close>

definition pow2 :: "int \<Rightarrow> real" where
  "pow2 e = (if 0 \<le> e then 2 ^ nat e else 1 / 2 ^ nat (- e))"

fun scale :: "nat \<Rightarrow> real \<Rightarrow> int \<Rightarrow> real \<times> int" where
  "scale 0 x e = (x, e)"
| "scale (Suc n) x e =
     (if 2 ^ 53 \<le> x then scale n (x / 2) (e + 1)
      else if x < 2 ^ 52 \<and> - 1074 < e then scale n (x * 2) (e - 1)
      else (x, e))"

definition to_double :: "real \<Rightarrow> real" where
  "to_double x =
     (if x = 0 then 0
      else (let me = scale 2200 \<bar>x\<bar> 0
            in sgn x * (of_int (round_half_even (fst me)) * pow2 (snd me))))"

text \<open>
  The format \<open>{:.1f}\<close> prints the float with one decimal, correctly rounded from its
  exact value, ties to even; the sign is that of the number, also when the digits are
  all zero.
\<close>

definition format_1f :: "real \<Rightarrow> string" where
  "format_1f x =
     (let n = nat (round_half_even (\<bar>to_double x\<bar> * 10))
      in (if x < 0 then ''-'' else []) @ digits (n div 10) @ ''.'' @ digits (n mod 10))"

section \<open>Recommendations (get\_recommendations)\<close>

record recommendation =
  rec_movieId :: int
  rec_title :: string
  rec_genres :: string
  predicted_rating :: real
  explanation :: string

text \<open>The accented letters of the Spanish sentences, as UTF-8 bytes.\<close>

definition i_acute :: string where
  "i_acute = [CHR 0xC3, CHR 0xAD]"

definition o_acute :: string where
  "o_acute = [CHR 0xC3, CHR 0xB3]"

definition e_acute :: string where
  "e_acute = [CHR 0xC3, CHR 0xA9]"

definition txt_liked_one :: string where
  "txt_liked_one = ''Te recomendamos esta pel'' @ i_acute @ ''cula porque te gust'' @ o_acute @ '' ''"

definition txt_liked_many :: string where
  "txt_liked_many = ''Te recomendamos esta pel'' @ i_acute @ ''cula porque te gustaron pel''
     @ i_acute @ ''culas similares como ''"

definition txt_genres :: string where
  "txt_genres = ''Te recomendamos esta pel'' @ i_acute @ ''cula porque contiene g'' @ e_acute
     @ ''neros que sueles disfrutar: ''"

definition txt_generic :: string where
  "txt_generic = ''Esta pel'' @ i_acute
     @ ''cula ha sido bien valorada por usuarios con gustos similares a los tuyos.''"

definition txt_similar_default :: string where
  "txt_similar_default = ''una pel'' @ i_acute @ ''cula similar''"

text \<open>\<open>rating_matrix.loc[user_id]\<close> and the three selections made from it.\<close>

definition rated_movies_of :: "rating_matrix \<Rightarrow> int \<Rightarrow> (int \<times> real) list" where
  "rated_movies_of rm user_id =
     concat (map (\<lambda>m. case cell rm user_id m of None \<Rightarrow> [] | Some r \<Rightarrow> [(m, r)]) (columns rm))"

definition movies_no_valoradas_of :: "rating_matrix \<Rightarrow> int \<Rightarrow> int list" where
  "movies_no_valoradas_of rm user_id = filter (\<lambda>m. cell rm user_id m = None) (columns rm)"

definition liked_movies_of :: "(int \<times> real) list \<Rightarrow> (int \<times> real) list" where
  "liked_movies_of rated_movies = filter (\<lambda>p. snd p \<ge> 7/2) rated_movies"

text \<open>
  The prediction loop: a candidate whose prediction raises is skipped, one whose
  estimate is below 3.0 is dropped.
\<close>

definition algo_predict :: "KNNBasic option \<Rightarrow> int \<Rightarrow> int \<Rightarrow> error + real" where
  "algo_predict ao u m = (case ao of None \<Rightarrow> Inl AttributeError | Some a \<Rightarrow> predict a u m)"

definition predictions_of :: "KNNBasic option \<Rightarrow> int \<Rightarrow> int list \<Rightarrow> (int \<times> real) list" where
  "predictions_of ao user_id movies =
     concat (map (\<lambda>movie_id. case algo_predict ao user_id movie_id of
                     Inl _ \<Rightarrow> []
                   | Inr est \<Rightarrow> if est \<ge> 3 then [(movie_id, est)] else []) movies)"

text \<open>\<open>algo.trainset.to_inner_iid\<close> and \<open>algo.sim\<close>, on the global \<open>algo\<close>.\<close>

definition inner_iid_of :: "KNNBasic option \<Rightarrow> int \<Rightarrow> error + nat" where
  "inner_iid_of ao m =
     (case ao of
        None \<Rightarrow> Inl AttributeError
      | Some a \<Rightarrow> (case knn_trainset a of None \<Rightarrow> Inl AttributeError | Some ts \<Rightarrow> to_inner_iid ts m))"

definition algo_sim :: "KNNBasic option \<Rightarrow> nat \<Rightarrow> nat \<Rightarrow> real" where
  "algo_sim ao x y = (case ao of None \<Rightarrow> 0 | Some a \<Rightarrow> sim a x y)"

text \<open>
  The inner loop over the liked movies: a liked movie the index does not know is skipped,
  one whose similarity to the candidate is not above 0.1 is dropped.
\<close>

definition movie_sims :: "KNNBasic option \<Rightarrow> nat \<Rightarrow> int list \<Rightarrow> (int \<times> real) list" where
  "movie_sims ao inner_movie_id liked_movie_ids =
     concat (map (\<lambda>liked_id. case inner_iid_of ao liked_id of
                     Inl _ \<Rightarrow> []
                   | Inr inner_liked_id \<Rightarrow>
                       (let s = algo_sim ao inner_movie_id inner_liked_id
                        in if s > 1/10 then [(liked_id, s)] else [])) liked_movie_ids)"

text \<open>
  One entry of \<open>sim_texts\<close>: the title (or the default) and the user's own rating,
  \<open>rated_movies[similar_id]\<close>, which raises for a movie the user has not rated.
\<close>

definition sim_text :: "(int \<times> movie_record) list \<Rightarrow> (int \<times> real) list \<Rightarrow> int \<Rightarrow> error + string" where
  "sim_text mi rated_movies similar_id =
     (let sim_title = (case map_of mi similar_id of None \<Rightarrow> txt_similar_default
                       | Some info \<Rightarrow> mr_title info)
      in case map_of rated_movies similar_id of
           None \<Rightarrow> Inl ValueError
         | Some sim_rating \<Rightarrow>
             Inr (sim_title @ '' (valoraci'' @ o_acute @ ''n: '' @ format_1f sim_rating @ '')''))"

fun sim_texts_of :: "(int \<times> movie_record) list \<Rightarrow> (int \<times> real) list \<Rightarrow> int list \<Rightarrow> error + string list" where
  "sim_texts_of mi rated_movies [] = Inr []"
| "sim_texts_of mi rated_movies (similar_id # rest) =
     (case sim_text mi rated_movies similar_id of
        Inl e \<Rightarrow> Inl e
      | Inr t \<Rightarrow> (case sim_texts_of mi rated_movies rest of Inl e \<Rightarrow> Inl e | Inr ts \<Rightarrow> Inr (t # ts)))"

text \<open>
  The first rule: no similar movie leaves the explanation empty; one gives the sentence
  with its title and rating; several give the enumeration, all but the last joined
  with commas, the last after \<open>y\<close>.
\<close>

definition rule1 :: "(int \<times> movie_record) list \<Rightarrow> (int \<times> real) list \<Rightarrow> (int \<times> real) list \<Rightarrow> error + string" where
  "rule1 mi rated_movies similar_movies =
     (if similar_movies = [] then Inr []
      else if length similar_movies = 1 then
        (case sim_text mi rated_movies (fst (similar_movies ! 0)) of
           Inl e \<Rightarrow> Inl e
         | Inr t \<Rightarrow> Inr (txt_liked_one @ t @ ''.''))
      else
        (case sim_texts_of mi rated_movies (map fst similar_movies) of
           Inl e \<Rightarrow> Inl e
         | Inr sim_texts \<Rightarrow>
             Inr (txt_liked_many @ join '', '' (butlast sim_texts) @ '' y '' @ last sim_texts @ ''.'')))"

text \<open>
  The second rule. The genres the user has shown: every non-empty genre token of every
  liked movie that the cache knows, counted.
\<close>

fun count_genres :: "(string \<rightharpoonup> nat) \<Rightarrow> string list \<Rightarrow> (string \<rightharpoonup> nat)" where
  "count_genres ugr [] = ugr"
| "count_genres ugr (genre # rest) =
     count_genres (if genre \<noteq> [] then ugr(genre \<mapsto> (case ugr genre of None \<Rightarrow> 0 | Some c \<Rightarrow> c) + 1)
                   else ugr) rest"

fun user_genre_ratings_of :: "(int \<rightharpoonup> string list) \<Rightarrow> (string \<rightharpoonup> nat) \<Rightarrow> int list \<Rightarrow> (string \<rightharpoonup> nat)" where
  "user_genre_ratings_of cache ugr [] = ugr"
| "user_genre_ratings_of cache ugr (rated_id # rest) =
     user_genre_ratings_of cache
       (case cache rated_id of None \<Rightarrow> ugr | Some gs \<Rightarrow> count_genres ugr gs) rest"

definition rule2 :: "(int \<rightharpoonup> string list) \<Rightarrow> int list \<Rightarrow> string list \<Rightarrow> string" where
  "rule2 cache liked_movie_ids movie_genres =
     (if movie_genres = [] then []
      else
        (let user_genre_ratings = user_genre_ratings_of cache Map.empty liked_movie_ids;
             matching_genres = filter (\<lambda>genre. user_genre_ratings genre \<noteq> None \<and> genre \<noteq> []) movie_genres
         in if matching_genres = [] then [] else txt_genres @ join '', '' matching_genres @ ''.''))"

text \<open>
  The body of the \<open>try\<close> of one candidate. It threads the global genre cache and the
  local dictionary \<open>best_similarities\<close>, and gives the explanation, empty when no rule
  applied or when a lookup raised. A candidate the index does not know raises at the
  first statement, before either rule.
\<close>

definition explain ::
  "KNNBasic option \<Rightarrow> (int \<times> movie_record) list \<Rightarrow> (int \<times> real) list \<Rightarrow> int list \<Rightarrow> int \<Rightarrow>
   (int \<rightharpoonup> string list) \<times> (int \<rightharpoonup> (int \<times> real) list) \<Rightarrow>
   ((int \<rightharpoonup> string list) \<times> (int \<rightharpoonup> (int \<times> real) list)) \<times> string" where
  "explain ao mi rated_movies liked_movie_ids movie_id cb =
     (case inner_iid_of ao movie_id of
        Inl _ \<Rightarrow> (cb, [])
      | Inr inner_movie_id \<Rightarrow>
         (let cache = fst cb; best_similarities = snd cb;
              similar_movies =
                (case best_similarities movie_id of
                   None \<Rightarrow> nlargest 3 snd (movie_sims ao inner_movie_id liked_movie_ids)
                 | Some v \<Rightarrow> v);
              best' = best_similarities(movie_id \<mapsto> similar_movies)
          in case rule1 mi rated_movies similar_movies of
               Inl _ \<Rightarrow> ((cache, best'), [])
             | Inr e1 \<Rightarrow>
                 if e1 \<noteq> [] then ((cache, best'), e1)
                 else
                   (let movie_genres = (case cache movie_id of None \<Rightarrow> [] | Some g \<Rightarrow> g)
                    in case (if movie_genres = [] then map_of mi movie_id else None) of
                         None \<Rightarrow> ((cache, best'), rule2 cache liked_movie_ids movie_genres)
                       | Some info \<Rightarrow>
                           (let genres_str = mr_genres info;
                                movie_genres' = (if genres_str \<noteq> []
                                                 then first_occurrences (split CHR ''|'' genres_str)
                                                 else []);
                                cache' = cache(movie_id \<mapsto> movie_genres')
                            in ((cache', best'), rule2 cache' liked_movie_ids movie_genres')))))"

text \<open>The loop over \<open>top_recommendations\<close> that builds the result.\<close>

fun recommend_loop ::
  "KNNBasic option \<Rightarrow> (int \<times> movie_record) list \<Rightarrow> (int \<times> real) list \<Rightarrow> int list \<Rightarrow>
   (int \<rightharpoonup> string list) \<times> (int \<rightharpoonup> (int \<times> real) list) \<Rightarrow> (int \<times> real) list \<Rightarrow>
   ((int \<rightharpoonup> string list) \<times> (int \<rightharpoonup> (int \<times> real) list)) \<times> recommendation list" where
  "recommend_loop ao mi rated_movies liked_movie_ids cb [] = (cb, [])"
| "recommend_loop ao mi rated_movies liked_movie_ids cb ((movie_id, pred_rating) # rest) =
     (let (cb', e) = explain ao mi rated_movies liked_movie_ids movie_id cb;
          explanation' = (if e = [] then txt_generic else e);
          info = (case map_of mi movie_id of
                    None \<Rightarrow> \<lparr>mr_title = ''Desconocido'', mr_genres = []\<rparr>
                  | Some i \<Rightarrow> i);
          r = \<lparr>rec_movieId = movie_id, rec_title = mr_title info, rec_genres = mr_genres info,
               predicted_rating = round2 pred_rating, explanation = explanation'\<rparr>;
          (cb'', recs) = recommend_loop ao mi rated_movies liked_movie_ids cb' rest
      in (cb'', r # recs))"

text \<open>
  \<open>get_recommendations\<close>: the model is loaded when the global is still empty; a user
  absent from the index of the rating matrix raises \<open>ValueError\<close>; otherwise the
  candidates are predicted, the largest \<open>top_n\<close> selected and explained.
\<close>

definition recommend_known ::
  "state \<Rightarrow> int \<Rightarrow> int \<Rightarrow> state \<times> recommendation list" where
  "recommend_known st user_id top_n =
     (let rated_movies = rated_movies_of (rating_matrix st) user_id;
          movies_no_valoradas = movies_no_valoradas_of (rating_matrix st) user_id;
          liked_movie_ids = map fst (liked_movies_of rated_movies);
          predictions = predictions_of (algo st) user_id movies_no_valoradas;
          top_recommendations = nlargest top_n snd predictions;
          (cb, recommendations) =
             recommend_loop (algo st) (movie_info st) rated_movies liked_movie_ids
               (movie_genres_cache st, Map.empty) top_recommendations
      in (st\<lparr>movie_genres_cache := fst cb\<rparr>, recommendations))"

definition get_recommendations ::
  "env \<Rightarrow> state \<Rightarrow> int \<Rightarrow> int \<Rightarrow> state \<times> (error + recommendation list)" where
  "get_recommendations ev st user_id top_n =
     (case (case algo st of None \<Rightarrow> load_model ev st | Some _ \<Rightarrow> (st, Inr ())) of
        (st1, Inl e) \<Rightarrow> (st1, Inl e)
      | (st1, Inr _) \<Rightarrow>
          if user_id \<notin> set (index (rating_matrix st1)) then (st1, Inl ValueError)
          else (let (st2, recommendations) = recommend_known st1 user_id top_n
                in (st2, Inr recommendations)))"

section \<open>States the program can be in\<close>

text \<open>The global \<open>algo\<close> holds a model object (fitted or not).\<close>

definition loaded :: "state \<Rightarrow> bool" where
  "loaded st = (case algo st of None \<Rightarrow> False | Some _ \<Rightarrow> True)"

text \<open>
  The states of a running process: the one the import leaves, and every state a call of
  \<open>retrain_model\<close> (successful or not) or of \<open>get_recommendations\<close> leaves, each call
  in a world of its own.
\<close>

inductive reachable :: "state \<Rightarrow> bool" where
  init: "module_init ev pkl = Inr st \<Longrightarrow> reachable st"
| retrain: "reachable st \<Longrightarrow> reachable (fst (retrain_model ev st))"
| recommend: "reachable st \<Longrightarrow> reachable (fst (get_recommendations ev st user_id top_n))"

text \<open>Every movie of the movie index has a non-empty genre set in the cache.\<close>

definition cache_covers :: "(int \<rightharpoonup> string list) \<Rightarrow> (int \<times> movie_record) list \<Rightarrow> bool" where
  "cache_covers cache mi =
     list_all (\<lambda>p. case cache (fst p) of None \<Rightarrow> False | Some g \<Rightarrow> g \<noteq> []) mi"

definition state_inv :: "state \<Rightarrow> bool" where
  "state_inv st \<longleftrightarrow> loaded st \<and> cache_covers (movie_genres_cache st) (movie_info st)"

text \<open>
  The rating matrix is the pivot of exactly the ratings the model was trained on: both
  were built from one snapshot of the feed.
\<close>

definition same_snapshot :: "state \<Rightarrow> bool" where
  "same_snapshot st =
     (case algo st of
        None \<Rightarrow> False
      | Some a \<Rightarrow> (case knn_trainset a of
                     None \<Rightarrow> False
                   | Some ts \<Rightarrow> rating_matrix st = pivot (raw_ratings ts)))"

text \<open>
  The similar movies of a candidate, as the first rule computes them: none when the index
  does not know the candidate, otherwise the three largest of \<open>movie_sims\<close>.
\<close>

definition similar_movies_of :: "KNNBasic option \<Rightarrow> int list \<Rightarrow> int \<Rightarrow> (int \<times> real) list" where
  "similar_movies_of ao liked_movie_ids movie_id =
     (case inner_iid_of ao movie_id of
        Inl _ \<Rightarrow> []
      | Inr inner_movie_id \<Rightarrow> nlargest 3 snd (movie_sims ao inner_movie_id liked_movie_ids))"



text \<open>
  The state is built from the data frame \<open>df\<close>: the rating matrix is its pivot, the
  training set of the model is built from it, and the similarity matrix of the model is
  what \<open>fit\<close> returns on that training set.
\<close>

definition built_from ::
  "(trainset \<Rightarrow> error + (nat \<Rightarrow> nat \<Rightarrow> real)) \<Rightarrow> row list \<Rightarrow> state \<Rightarrow> bool" where
  "built_from fit_fn df st \<longleftrightarrow>
     rating_matrix st = pivot_table df
     \<and> (case algo st of
          None \<Rightarrow> False
        | Some a \<Rightarrow> knn_trainset a = Some (build_full_trainset df)
                    \<and> fit_fn (build_full_trainset df) = Inr (sim a))"

text \<open>The model \<open>retrain_model\<close> returns for a data frame and the similarity matrix fitted on it.\<close>

definition trained_model :: "row list \<Rightarrow> (nat \<Rightarrow> nat \<Rightarrow> real) \<Rightarrow> KNNBasic" where
  "trained_model df s =
     \<lparr>knn_k = 10, knn_min_k = 3, min_sim = 0,
      knn_trainset = Some (build_full_trainset df), sim = s\<rparr>"










section \<open>Concrete stores used as test inputs\<close>

text \<open>
  A small store: users 1, 2 and 4, of whom user 4 has rated nothing; four movies, of
  which movie 40 has no genre row; five ratings.
\<close>

definition ex_db :: database where
  "ex_db = \<lparr>User = [1, 2, 4],
            Movie = [(10, ''A''), (20, ''B''), (30, ''C''), (40, ''D'')],
            Genre = [(1, ''Drama''), (2, ''Comedy'')],
            Movie_Genre = [(10, 1), (20, 1), (20, 2), (30, 2)],
            Rating = [(1, 10, 5), (1, 20, 4), (2, 10, 4), (2, 30, 5), (1, 40, 3)]\<rparr>"

text \<open>The same store with no rating at all.\<close>

definition ex_empty_db :: database where
  "ex_empty_db = ex_db\<lparr>Rating := []\<rparr>"

text \<open>The same store as it was earlier, when only user 1 had rated movie 10.\<close>

definition ex_old_db :: database where
  "ex_old_db = ex_db\<lparr>Rating := [(1, 10, 5)]\<rparr>"

text \<open>A world in which training and the dump succeed, one in which training fails.\<close>

definition ex_env :: env where
  "ex_env = \<lparr>conn = Connected ex_db,
             fit = (\<lambda>ts. Inr (\<lambda>x y. if x = y then 1 else 1/2)),
             pickle_dump = Dumped\<rparr>"

definition ex_old_env :: env where
  "ex_old_env = ex_env\<lparr>conn := Connected ex_old_db\<rparr>"

definition ex_fit_fails :: env where
  "ex_fit_fails = ex_env\<lparr>fit := (\<lambda>ts. Inl FitError)\<rparr>"

text \<open>The world of the store without ratings.\<close>

definition ex_empty_env :: env where
  "ex_empty_env = ex_env\<lparr>conn := Connected ex_empty_db\<rparr>"

text \<open>The state a start on the small store leaves when there is no pickled model.\<close>

definition ex_state :: state where
  "ex_state = projr (module_init ex_env Absent)"

text \<open>The state a start on the earlier store leaves.\<close>

definition ex_old_state :: state where
  "ex_old_state = projr (module_init ex_old_env Absent)"

text \<open>The model that start trained and pickled.\<close>

definition ex_old_model :: KNNBasic where
  "ex_old_model = the (algo ex_old_state)"

text \<open>
  The state a start on the small store leaves when \<open>recommender.pkl\<close> holds the model
  pickled from the earlier store.
\<close>

definition ex_stale_state :: state where
  "ex_stale_state = projr (module_init ex_env (Pickled ex_old_model))"

text \<open>A successful retrain on the small store: the state it leaves, the model it returns.\<close>

definition ex_retrained :: state where
  "ex_retrained = fst (retrain_model ex_env ex_state)"

definition ex_model :: KNNBasic where
  "ex_model = projr (snd (retrain_model ex_env ex_state))"

text \<open>A world in which the store cannot be reached.\<close>

definition ex_unreachable :: env where
  "ex_unreachable = ex_env\<lparr>conn := Unreachable\<rparr>"



text \<open>A world in which training succeeds and the dump fails.\<close>

definition ex_dump_fails :: env where
  "ex_dump_fails = ex_env\<lparr>pickle_dump := WriteFailed\<rparr>"

section \<open>Facts about the feed and the dataset builder\<close>

lemma set_first_occurrences: "set (first_occurrences xs) = set xs"
  by (simp add: first_occurrences_def)

lemma first_occurrences_Nil_iff: "first_occurrences xs = [] \<longleftrightarrow> xs = []"
proof -
  have "set (first_occurrences xs) = {} \<longleftrightarrow> set xs = {}"
    by (simp only: set_first_occurrences)
  then show ?thesis by simp
qed

lemma split_not_Nil: "split c s \<noteq> []"
  by (induction s) (auto split: list.splits)

lemma joined_has_genre:
  assumes "((u, m, v, t), g) \<in> set (joined d)"
  shows "(u, m, v) \<in> set (Rating d) \<and> (\<exists>gid. (m, gid) \<in> set (Movie_Genre d))"
  using assms unfolding joined_def
  by (auto split: if_splits)

lemma query_movie:
  assumes "r \<in> set (query d)"
  shows "\<exists>gid. (movieId r, gid) \<in> set (Movie_Genre d)"
proof -
  from assms have "\<exists>k \<in> set (joined d). movieId r = fst (snd (fst k))"
    unfolding query_def by (force simp: set_first_occurrences)
  then obtain u m v t g where "((u, m, v, t), g) \<in> set (joined d)" and "movieId r = m"
    by force
  with joined_has_genre show ?thesis by blast
qed

lemma index_pivot: "set (index (pivot ts)) = fst ` set ts"
  by (simp add: pivot_def)

lemma columns_pivot: "set (columns (pivot ts)) = (\<lambda>t. fst (snd t)) ` set ts"
  by (simp add: pivot_def)

lemma index_pivot_table: "set (index (pivot_table df)) = userId ` set df"
  by (auto simp: pivot_table_def triples_def index_pivot image_iff)

lemma columns_pivot_table: "set (columns (pivot_table df)) = movieId ` set df"
  by (auto simp: pivot_table_def triples_def columns_pivot image_iff)

lemma cell_pivot_table_None:
  "cell (pivot_table df) u m = None \<longleftrightarrow> (\<forall>r \<in> set df. \<not> (userId r = u \<and> movieId r = m))"
  by (auto simp: pivot_table_def pivot_def triples_def Let_def filter_empty_conv)

lemma drop_duplicates_subset: "set (drop_duplicates seen df) \<subseteq> set df"
  by (induction df arbitrary: seen) auto

lemma movie_info_of_keys: "fst ` set (movie_info_of df) \<subseteq> movieId ` set df"
  using drop_duplicates_subset [of "[]" df] by (auto simp: movie_info_of_def)

lemma index_of_None: "index_of x xs = None \<longleftrightarrow> x \<notin> set xs"
  by (induction xs) auto

lemma index_of_Some: "index_of x xs = Some n \<Longrightarrow> x \<in> set xs"
  using index_of_None [of x xs] by fastforce

lemma to_inner_iid_unknown:
  "to_inner_iid ts i = Inl ValueError \<longleftrightarrow> i \<notin> (\<lambda>t. fst (snd t)) ` set (raw_ratings ts)"
  by (auto simp: to_inner_iid_def index_of_None set_first_occurrences
           dest!: index_of_Some split: option.splits)

lemma load_data_Connected:
  "load_data (Connected d) cache =
     Inr (query d, movie_info_of (query d), pivot_table (query d),
          fill_cache cache (movie_info_of (query d)))"
  by (simp add: load_data_def fetch_data_from_db_def Let_def)

text \<open>
  The bulk loader writes no movie-genre pair for a movie whose CSV rows all carry the
  single token \<open>(no genres listed)\<close>.
\<close>

lemma movie_genre_pairs_skips:
  assumes "\<forall>r \<in> set df. movieId r = m \<longrightarrow> genres r = ''(no genres listed)''"
  shows "\<forall>p \<in> set (movie_genre_pairs genre_dict df). fst p \<noteq> m"
  using assms unfolding movie_genre_pairs_def by auto

section \<open>Ratings of movies without genre rows\<close>

text \<open>
  Claim C10. A rating whose movie has no row in \<open>Movie_Genre\<close> is dropped by the inner
  joins of the feed although it is in the store: the data frame that \<open>load_data\<close>
  returns has no row for the movie, the movie is no column of the rating matrix, the
  user's cell for it is empty, the movie index does not hold it, and the training set
  built from the data frame does not know the item.
\<close>

theorem rating_without_genre_dropped:
  assumes "(u, m, v) \<in> set (Rating d)"
      and "m \<notin> fst ` set (Movie_Genre d)"
      and "load_data (Connected d) cache = Inr (df, mi, rm, cache')"
  shows "m \<notin> movieId ` set df \<and> m \<notin> set (columns rm) \<and> cell rm u m = None
         \<and> m \<notin> fst ` set mi \<and> to_inner_iid (build_full_trainset df) m = Inl ValueError"
proof -
  from assms(3) have df: "df = query d" and mi: "mi = movie_info_of df" and rm: "rm = pivot_table df"
    by (auto simp: load_data_Connected)
  have a: "\<forall>r \<in> set df. movieId r \<noteq> m"
  proof
    fix r assume "r \<in> set df"
    with df query_movie obtain gid where "(movieId r, gid) \<in> set (Movie_Genre d)" by blast
    with assms(2) show "movieId r \<noteq> m" by force
  qed
  have a': "m \<notin> movieId ` set df" using a by auto
  have b: "m \<notin> set (columns rm)" using a by (auto simp: rm columns_pivot_table)
  have c: "cell rm u m = None" using a by (simp add: rm cell_pivot_table_None)
  have e: "m \<notin> fst ` set mi" using a movie_info_of_keys [of df] unfolding mi by force
  have f: "to_inner_iid (build_full_trainset df) m = Inl ValueError"
    using a by (auto simp: to_inner_iid_unknown build_full_trainset_def triples_def)
  from a' b c e f show ?thesis by blast
qed

theorem rating_without_genre_dropped_witness:
  "(1, 40, 3) \<in> set (Rating ex_db) \<and> 40 \<notin> fst ` set (Movie_Genre ex_db)
   \<and> 40 \<notin> movieId ` set (query ex_db)
   \<and> 40 \<notin> set (columns (pivot_table (query ex_db)))
   \<and> cell (pivot_table (query ex_db)) 1 40 = None
   \<and> 40 \<notin> fst ` set (movie_info_of (query ex_db))
   \<and> to_inner_iid (build_full_trainset (query ex_db)) 40 = Inl ValueError"
proof -
  have h1: "(1, 40, 3) \<in> set (Rating ex_db)" by (simp add: ex_db_def)
  have h2: "40 \<notin> fst ` set (Movie_Genre ex_db)" by (simp add: ex_db_def)
  show ?thesis
    using h1 h2 rating_without_genre_dropped [OF h1 h2 load_data_Connected [of ex_db Map.empty]]
    by blast
qed

section \<open>Facts about training and about the recommendation loop\<close>

lemma get_recommendations_loaded:
  assumes "loaded st"
  shows "get_recommendations ev st user_id top_n =
           (if user_id \<notin> set (index (rating_matrix st)) then (st, Inl ValueError)
            else (fst (recommend_known st user_id top_n),
                  Inr (snd (recommend_known st user_id top_n))))"
  using assms
  by (auto simp: get_recommendations_def loaded_def split: option.splits prod.splits)

lemma retrain_model_fields:
  assumes "conn ev = Connected d"
  shows "data (fst (retrain_model ev st)) = query d
       \<and> movie_info (fst (retrain_model ev st)) = movie_info_of (query d)
       \<and> rating_matrix (fst (retrain_model ev st)) = pivot_table (query d)
       \<and> movie_genres_cache (fst (retrain_model ev st)) =
           fill_cache (movie_genres_cache st) (movie_info_of (query d))
       \<and> loaded (fst (retrain_model ev st))"
  using assms
  by (auto simp: retrain_model_def load_data_Connected Let_def loaded_def
           split: sum.splits dump_outcome.splits)

lemma retrain_model_Unreachable:
  assumes "conn ev = Unreachable"
  shows "retrain_model ev st = (st, Inl DBError)"
  using assms by (simp add: retrain_model_def load_data_def fetch_data_from_db_def)

lemma pivot_table_Nil: "index (pivot_table []) = []"
  by (simp add: pivot_table_def pivot_def triples_def)

lemma ex_state_init: "module_init ex_env Absent = Inr ex_state"
proof -
  have "\<not> isl (module_init ex_env Absent)" by code_simp
  then show ?thesis unfolding ex_state_def by (cases "module_init ex_env Absent") simp_all
qed

lemma nlargest_length: "length (nlargest n key xs) \<le> nat n"
  by (simp add: nlargest_def)

lemma nlargest_subset: "set (nlargest n key xs) \<subseteq> set xs"
  using set_take_subset [of "nat n" "sort_key (\<lambda>x. - key x) xs"] by (simp add: nlargest_def)

lemma nlargest_nonpositive: "n \<le> 0 \<Longrightarrow> nlargest n key xs = []"
  by (simp add: nlargest_def)

lemma round_half_even_ge_floor: "\<lfloor>x\<rfloor> \<le> round_half_even x"
  by (simp add: round_half_even_def Let_def)

lemma round2_ge_3:
  assumes "3 \<le> x"
  shows "3 \<le> round2 x"
proof -
  from assms have "(300::real) \<le> x * 100" by simp
  then have "(300::int) \<le> \<lfloor>x * 100\<rfloor>" by linarith
  with round_half_even_ge_floor [of "x * 100"] have "(300::int) \<le> round_half_even (x * 100)"
    by linarith
  then have "(300::real) \<le> of_int (round_half_even (x * 100))" by linarith
  then show ?thesis by (simp add: round2_def)
qed

lemma predictions_of_floor:
  assumes "p \<in> set (predictions_of ao user_id movies)"
  shows "3 \<le> snd p \<and> fst p \<in> set movies"
  using assms unfolding predictions_of_def
  by (auto split: sum.splits if_splits)

lemma recommend_loop_Cons:
  "recommend_loop ao mi rated liked cb (p # sel) =
     (fst (recommend_loop ao mi rated liked (fst (explain ao mi rated liked (fst p) cb)) sel),
      \<lparr>rec_movieId = fst p,
       rec_title = mr_title (case map_of mi (fst p) of
                      None \<Rightarrow> \<lparr>mr_title = ''Desconocido'', mr_genres = []\<rparr> | Some i \<Rightarrow> i),
       rec_genres = mr_genres (case map_of mi (fst p) of
                      None \<Rightarrow> \<lparr>mr_title = ''Desconocido'', mr_genres = []\<rparr> | Some i \<Rightarrow> i),
       predicted_rating = round2 (snd p),
       explanation = (if snd (explain ao mi rated liked (fst p) cb) = [] then txt_generic
                      else snd (explain ao mi rated liked (fst p) cb))\<rparr>
      # snd (recommend_loop ao mi rated liked (fst (explain ao mi rated liked (fst p) cb)) sel))"
  by (cases p) (simp add: Let_def case_prod_unfold)

lemma recommend_loop_ratings:
  "map predicted_rating (snd (recommend_loop ao mi rated liked cb sel)) = map (\<lambda>p. round2 (snd p)) sel"
  by (induction sel arbitrary: cb) (simp_all add: recommend_loop_Cons)

lemma recommend_loop_movies:
  "map rec_movieId (snd (recommend_loop ao mi rated liked cb sel)) = map fst sel"
  by (induction sel arbitrary: cb) (simp_all add: recommend_loop_Cons)

lemma recommend_known_ratings:
  "map predicted_rating (snd (recommend_known st user_id top_n)) =
     map (\<lambda>p. round2 (snd p))
       (nlargest top_n snd (predictions_of (algo st) user_id
          (movies_no_valoradas_of (rating_matrix st) user_id)))"
  by (simp add: recommend_known_def Let_def case_prod_unfold recommend_loop_ratings)

lemma fill_cache_keeps:
  assumes "\<exists>g. cache m = Some g \<and> g \<noteq> []"
  shows "\<exists>g. fill_cache cache mi m = Some g \<and> g \<noteq> []"
  using assms
proof (induction mi arbitrary: cache)
  case Nil
  then show ?case by simp
next
  case (Cons p mi)
  obtain k info where p: "p = (k, info)" by (cases p)
  define c' where "c' = cache(k \<mapsto> first_occurrences (split CHR ''|'' (mr_genres info)))"
  have "\<exists>g. c' m = Some g \<and> g \<noteq> []"
    using Cons.prems by (simp add: c'_def first_occurrences_Nil_iff split_not_Nil)
  then have "\<exists>g. fill_cache c' mi m = Some g \<and> g \<noteq> []" by (rule Cons.IH [of c'])
  then show ?case by (simp add: p c'_def)
qed

lemma fill_cache_covers_key:
  assumes "m \<in> fst ` set mi"
  shows "\<exists>g. fill_cache cache mi m = Some g \<and> g \<noteq> []"
  using assms
proof (induction mi arbitrary: cache)
  case Nil
  then show ?case by simp
next
  case (Cons p mi)
  obtain k info where p: "p = (k, info)" by (cases p)
  show ?case
  proof (cases "m = k")
    case True
    define c' where "c' = cache(k \<mapsto> first_occurrences (split CHR ''|'' (mr_genres info)))"
    have "\<exists>g. c' m = Some g \<and> g \<noteq> []"
      using True by (simp add: c'_def first_occurrences_Nil_iff split_not_Nil)
    then have "\<exists>g. fill_cache c' mi m = Some g \<and> g \<noteq> []" by (rule fill_cache_keeps [of c' m mi])
    then show ?thesis by (simp add: p c'_def)
  next
    case False
    with Cons.prems p have "m \<in> fst ` set mi" by auto
    from Cons.IH [OF this] show ?thesis by (simp add: p)
  qed
qed

lemma cache_covers_fill_cache: "cache_covers (fill_cache cache mi) mi"
proof -
  have "\<forall>p \<in> set mi. case fill_cache cache mi (fst p) of None \<Rightarrow> False | Some g \<Rightarrow> g \<noteq> []"
  proof
    fix p assume "p \<in> set mi"
    then have "fst p \<in> fst ` set mi" by simp
    from fill_cache_covers_key [OF this, of cache] show
      "case fill_cache cache mi (fst p) of None \<Rightarrow> False | Some g \<Rightarrow> g \<noteq> []" by auto
  qed
  then show ?thesis by (simp add: cache_covers_def list_all_iff)
qed

lemma cache_covers_lookup:
  assumes "cache_covers cache mi" and "map_of mi m = Some info"
  shows "\<exists>g. cache m = Some g \<and> g \<noteq> []"
proof -
  from assms(2) have "(m, info) \<in> set mi" by (rule map_of_SomeD)
  with assms(1) show ?thesis
    by (force simp: cache_covers_def list_all_iff split: option.splits)
qed

lemma explain_keeps_cache:
  assumes "cache_covers cache mi"
  shows "fst (fst (explain ao mi rated liked m (cache, best))) = cache"
proof (cases "map_of mi m")
  case None
  then show ?thesis
    by (simp add: explain_def Let_def split: sum.splits option.splits)
next
  case (Some info)
  from cache_covers_lookup [OF assms Some] obtain g where "cache m = Some g" "g \<noteq> []" by blast
  then show ?thesis
    by (simp add: explain_def Let_def split: sum.splits option.splits)
qed

lemma recommend_loop_keeps_cache:
  assumes "cache_covers cache mi"
  shows "fst (fst (recommend_loop ao mi rated liked (cache, best) sel)) = cache"
  using assms
proof (induction sel arbitrary: best)
  case Nil
  then show ?case by simp
next
  case (Cons p sel)
  define cb' where "cb' = fst (explain ao mi rated liked (fst p) (cache, best))"
  from explain_keeps_cache [OF Cons.prems, of ao rated liked "fst p" best]
  have c: "cb' = (cache, snd cb')" by (simp add: cb'_def prod_eq_iff)
  from Cons.IH [OF Cons.prems, of "snd cb'"] c
  have "fst (fst (recommend_loop ao mi rated liked cb' sel)) = cache" by simp
  then show ?case by (simp add: recommend_loop_Cons cb'_def)
qed

lemma recommend_known_read_only:
  assumes "cache_covers (movie_genres_cache st) (movie_info st)"
  shows "fst (recommend_known st user_id top_n) = st"
  using recommend_loop_keeps_cache [OF assms]
  by (simp add: recommend_known_def Let_def case_prod_unfold)

lemma get_recommendations_read_only:
  assumes "state_inv st"
  shows "fst (get_recommendations ev st user_id top_n) = st"
  using assms recommend_known_read_only [of st user_id top_n]
  by (simp add: state_inv_def get_recommendations_loaded)

lemma retrain_model_inv:
  assumes "state_inv st"
  shows "state_inv (fst (retrain_model ev st))"
proof (cases "conn ev")
  case Unreachable
  then show ?thesis using assms by (simp add: retrain_model_Unreachable)
next
  case (Connected d)
  from retrain_model_fields [OF Connected, of st] show ?thesis
    by (simp add: state_inv_def cache_covers_fill_cache)
qed

lemma retrain_model_inv_fresh:
  assumes "conn ev = Connected d"
  shows "state_inv (fst (retrain_model ev st))"
  using retrain_model_fields [OF assms, of st]
  by (simp add: state_inv_def cache_covers_fill_cache)

lemma module_init_inv:
  assumes "module_init ev pkl = Inr st"
  shows "state_inv st"
proof (cases "conn ev")
  case Unreachable
  with assms show ?thesis by (simp add: module_init_def load_data_def fetch_data_from_db_def)
next
  case (Connected d)
  define st0 where "st0 = \<lparr>algo = None, data = query d, movie_info = movie_info_of (query d),
     rating_matrix = pivot_table (query d),
     movie_genres_cache = fill_cache Map.empty (movie_info_of (query d)), recommender_pkl = pkl\<rparr>"
  from assms Connected have lm: "load_model ev st0 = (st, Inr ())"
    by (auto simp: module_init_def load_data_Connected st0_def split: prod.splits sum.splits)
  show ?thesis
  proof (cases "\<exists>a. pkl = Pickled a")
    case True
    then obtain a where "pkl = Pickled a" by blast
    with lm have "st = st0\<lparr>algo := Some a\<rparr>" by (simp add: load_model_def st0_def)
    then show ?thesis by (simp add: state_inv_def loaded_def st0_def cache_covers_fill_cache)
  next
    case False
    then have "\<exists>a. st = (fst (retrain_model ev st0))\<lparr>algo := Some a\<rparr>"
      using lm by (cases pkl) (auto simp: load_model_def st0_def split: prod.splits sum.splits)
    then obtain a where st: "st = (fst (retrain_model ev st0))\<lparr>algo := Some a\<rparr>" by blast
    from retrain_model_inv_fresh [OF Connected, of st0] show ?thesis
      by (simp add: st state_inv_def loaded_def)
  qed
qed

lemma reachable_inv: "reachable st \<Longrightarrow> state_inv st"
proof (induction rule: reachable.induct)
  case (init ev pkl st)
  then show ?case by (rule module_init_inv)
next
  case (retrain st ev)
  then show ?case by (simp add: retrain_model_inv)
next
  case (recommend st ev user_id top_n)
  then show ?case by (simp add: get_recommendations_read_only)
qed

lemma retrain_model_success:
  assumes "retrain_model ev st = (st', Inr a)"
  shows "\<exists>d s. conn ev = Connected d \<and> fit ev (build_full_trainset (query d)) = Inr s
           \<and> a = \<lparr>knn_k = 10, knn_min_k = 3, min_sim = 0,
                  knn_trainset = Some (build_full_trainset (query d)), sim = s\<rparr>
           \<and> algo st' = Some a \<and> rating_matrix st' = pivot_table (query d)
           \<and> data st' = query d \<and> recommender_pkl st' = Pickled a"
proof (cases "conn ev")
  case Unreachable
  with assms show ?thesis by (simp add: retrain_model_Unreachable)
next
  case (Connected d)
  with assms show ?thesis
    by (auto simp: retrain_model_def load_data_Connected Let_def
             split: sum.splits dump_outcome.splits)
qed

lemma retrain_model_same_snapshot:
  assumes "retrain_model ev st = (st', Inr a)"
  shows "same_snapshot st' \<and> algo st' = Some a"
proof -
  from retrain_model_success [OF assms] obtain d s where
    a: "a = \<lparr>knn_k = 10, knn_min_k = 3, min_sim = 0,
             knn_trainset = Some (build_full_trainset (query d)), sim = s\<rparr>"
    and al: "algo st' = Some a" and rm: "rating_matrix st' = pivot_table (query d)" by blast
  show ?thesis
    by (simp add: same_snapshot_def al rm a build_full_trainset_def pivot_table_def)
qed

lemma module_init_Pickled:
  assumes "module_init ev (Pickled b) = Inr st" and "conn ev = Connected d"
  shows "algo st = Some b \<and> rating_matrix st = pivot_table (query d)"
  using assms
  by (auto simp: module_init_def load_data_Connected load_model_def)

lemma module_init_cold:
  assumes "module_init ev pkl = Inr st" and "pkl = Absent \<or> pkl = Corrupt"
  shows "same_snapshot st"
proof (cases "conn ev")
  case Unreachable
  with assms show ?thesis by (simp add: module_init_def load_data_def fetch_data_from_db_def)
next
  case (Connected d)
  define st0 where "st0 = \<lparr>algo = None, data = query d, movie_info = movie_info_of (query d),
     rating_matrix = pivot_table (query d),
     movie_genres_cache = fill_cache Map.empty (movie_info_of (query d)), recommender_pkl = pkl\<rparr>"
  from assms Connected have "\<exists>st' a. retrain_model ev st0 = (st', Inr a) \<and> st = st'\<lparr>algo := Some a\<rparr>"
    by (auto simp: module_init_def load_data_Connected st0_def load_model_def
             split: prod.splits sum.splits)
  then obtain st' a where r: "retrain_model ev st0 = (st', Inr a)" and st: "st = st'\<lparr>algo := Some a\<rparr>"
    by blast
  from retrain_model_same_snapshot [OF r] show ?thesis
    by (auto simp: st same_snapshot_def split: option.splits)
qed

lemma module_init_Absent_pickles:
  assumes "module_init ev Absent = Inr st"
  shows "\<exists>a. algo st = Some a \<and> recommender_pkl st = Pickled a"
proof (cases "conn ev")
  case Unreachable
  with assms show ?thesis by (simp add: module_init_def load_data_def fetch_data_from_db_def)
next
  case (Connected d)
  define st0 where "st0 = \<lparr>algo = None, data = query d, movie_info = movie_info_of (query d),
     rating_matrix = pivot_table (query d),
     movie_genres_cache = fill_cache Map.empty (movie_info_of (query d)),
     recommender_pkl = Absent\<rparr>"
  from assms Connected have "\<exists>st' a. retrain_model ev st0 = (st', Inr a) \<and> st = st'\<lparr>algo := Some a\<rparr>"
    by (auto simp: module_init_def load_data_Connected st0_def load_model_def
             split: prod.splits sum.splits)
  then obtain st' a where r: "retrain_model ev st0 = (st', Inr a)" and st: "st = st'\<lparr>algo := Some a\<rparr>"
    by blast
  from retrain_model_success [OF r] have "recommender_pkl st' = Pickled a" by blast
  then show ?thesis by (simp add: st)
qed

lemma same_snapshot_index:
  assumes "same_snapshot st"
  shows "case algo st of
           None \<Rightarrow> False
         | Some a \<Rightarrow> (case knn_trainset a of
                        None \<Rightarrow> False
                      | Some ts \<Rightarrow> index (rating_matrix st) = index (pivot (raw_ratings ts)))"
  using assms by (auto simp: same_snapshot_def split: option.splits)

lemma retrain_model_built_from:
  assumes "retrain_model ev st = (st', Inr a)"
  shows "\<exists>d. conn ev = Connected d \<and> built_from (fit ev) (query d) st'"
proof -
  from retrain_model_success [OF assms] obtain d s where
    c: "conn ev = Connected d" and f: "fit ev (build_full_trainset (query d)) = Inr s"
    and a: "a = \<lparr>knn_k = 10, knn_min_k = 3, min_sim = 0,
             knn_trainset = Some (build_full_trainset (query d)), sim = s\<rparr>"
    and al: "algo st' = Some a" and rm: "rating_matrix st' = pivot_table (query d)" by blast
  have "built_from (fit ev) (query d) st'"
    by (simp add: built_from_def al rm a f)
  with c show ?thesis by blast
qed

lemma module_init_cold_built_from:
  assumes "module_init ev pkl = Inr st" and "pkl = Absent \<or> pkl = Corrupt"
  shows "\<exists>d. conn ev = Connected d \<and> built_from (fit ev) (query d) st"
proof (cases "conn ev")
  case Unreachable
  with assms show ?thesis by (simp add: module_init_def load_data_def fetch_data_from_db_def)
next
  case (Connected d)
  define st0 where "st0 = \<lparr>algo = None, data = query d, movie_info = movie_info_of (query d),
     rating_matrix = pivot_table (query d),
     movie_genres_cache = fill_cache Map.empty (movie_info_of (query d)), recommender_pkl = pkl\<rparr>"
  from assms Connected have "\<exists>st' a. retrain_model ev st0 = (st', Inr a) \<and> st = st'\<lparr>algo := Some a\<rparr>"
    by (auto simp: module_init_def load_data_Connected st0_def load_model_def
             split: prod.splits sum.splits)
  then obtain st' a where r: "retrain_model ev st0 = (st', Inr a)" and st: "st = st'\<lparr>algo := Some a\<rparr>"
    by blast
  from retrain_model_built_from [OF r] obtain d' where
    c: "conn ev = Connected d'" and b: "built_from (fit ev) (query d') st'" by blast
  from retrain_model_success [OF r] have al: "algo st' = Some a" by blast
  from b al have "built_from (fit ev) (query d') st" by (simp add: st built_from_def)
  with c show ?thesis by blast
qed

lemma recommend_known_changes_cache_only:
  "\<exists>c. fst (recommend_known st user_id top_n) = st\<lparr>movie_genres_cache := c\<rparr>"
  by (auto simp: recommend_known_def Let_def case_prod_unfold)

lemma get_recommendations_keeps_model:
  assumes "loaded st"
  shows "algo (fst (get_recommendations ev st user_id top_n)) = algo st
       \<and> rating_matrix (fst (get_recommendations ev st user_id top_n)) = rating_matrix st"
proof -
  from recommend_known_changes_cache_only [of st user_id top_n] obtain c where
    "fst (recommend_known st user_id top_n) = st\<lparr>movie_genres_cache := c\<rparr>" by blast
  then show ?thesis by (simp add: get_recommendations_loaded [OF assms])
qed

lemma ex_retrain: "retrain_model ex_env ex_state = (ex_retrained, Inr ex_model)"
proof -
  have "\<not> isl (snd (retrain_model ex_env ex_state))" by code_simp
  then show ?thesis unfolding ex_retrained_def ex_model_def
    by (cases "retrain_model ex_env ex_state") (auto simp: isl_def)
qed

lemma ex_stale_init: "module_init ex_env (Pickled ex_old_model) = Inr ex_stale_state"
proof -
  have "\<not> isl (module_init ex_env (Pickled ex_old_model))" by code_simp
  then show ?thesis unfolding ex_stale_state_def
    by (cases "module_init ex_env (Pickled ex_old_model)") simp_all
qed

lemma ex_old_init: "module_init ex_old_env Absent = Inr ex_old_state"
proof -
  have "\<not> isl (module_init ex_old_env Absent)" by code_simp
  then show ?thesis unfolding ex_old_state_def
    by (cases "module_init ex_old_env Absent") simp_all
qed

lemma ex_old_pickled: "recommender_pkl ex_old_state = Pickled ex_old_model"
proof -
  from module_init_Absent_pickles [OF ex_old_init] obtain a where
    "algo ex_old_state = Some a" "recommender_pkl ex_old_state = Pickled a" by blast
  then show ?thesis by (simp add: ex_old_model_def)
qed

text \<open>The selection of similar movies and the first rule.\<close>

lemma nlargest_highest:
  assumes "p \<in> set (nlargest n key xs)" and "q \<in> set xs" and "q \<notin> set (nlargest n key xs)"
  shows "key q \<le> key p"
proof -
  define ys where "ys = sort_key (\<lambda>x. - key x) xs"
  have s: "sorted (map (\<lambda>x. - key x) (take (nat n) ys @ drop (nat n) ys))"
    by (simp add: ys_def)
  from assms(1) have p: "p \<in> set (take (nat n) ys)" by (simp add: nlargest_def ys_def)
  have "set ys = set (take (nat n) ys) \<union> set (drop (nat n) ys)"
    by (metis append_take_drop_id set_append)
  with assms(2,3) have q: "q \<in> set (drop (nat n) ys)" by (auto simp: nlargest_def ys_def)
  from s p q have "- key p \<le> - key q"
    unfolding map_append sorted_append by auto
  then show ?thesis by simp
qed







lemma similar_movies_of_highest:
  assumes "inner_iid_of ao m = Inr x"
      and "p \<in> set (similar_movies_of ao liked m)"
      and "q \<in> set (movie_sims ao x liked)"
      and "q \<notin> set (similar_movies_of ao liked m)"
  shows "snd q \<le> snd p"
  using assms nlargest_highest [of p 3 snd "movie_sims ao x liked" q]
  by (simp add: similar_movies_of_def)
































lemma format_1f_examples:
  "format_1f (87/20) = ''4.3'' \<and> format_1f (9/2) = ''4.5'' \<and> format_1f (1/4) = ''0.2''
   \<and> format_1f (- 1/25) = ''-0.0'' \<and> format_1f 5 = ''5.0''"
  by code_simp

section \<open>The empty and the unreachable feed\<close>

text \<open>
  Claim C9, as the spec states it: dataset building fails when the feed is empty. It does
  not: on the store without ratings the feed is empty and \<open>load_data\<close> returns.
\<close>

theorem empty_feed_is_no_error:
  "query ex_empty_db = [] \<and> \<not> isl (load_data (Connected ex_empty_db) Map.empty)"
  by code_simp

text \<open>
  Claim C9, amended. \<open>load_data\<close> fails only when the store cannot be reached, with the
  error of the fetch. An empty feed gives an empty data frame, movie index and rating
  matrix and leaves the genre cache as it was; after a retrain on an empty feed (whether
  training then succeeds or not) \<open>get_recommendations\<close> answers every user with the
  user-not-found \<open>ValueError\<close> and changes nothing.
\<close>

theorem load_data_fails_only_unreachable:
  assumes "conn ev = Connected d" and "query d = []"
  shows "load_data Unreachable cache = Inl DBError
       \<and> load_data (conn ev) cache = Inr ([], [], pivot_table [], cache)
       \<and> get_recommendations ev' (fst (retrain_model ev st)) user_id top_n =
           (fst (retrain_model ev st), Inl ValueError)"
proof -
  have a: "load_data Unreachable cache = Inl DBError"
    by (simp add: load_data_def fetch_data_from_db_def)
  have b: "load_data (conn ev) cache = Inr ([], [], pivot_table [], cache)"
    using assms by (simp add: load_data_Connected movie_info_of_def)
  from retrain_model_fields [OF assms(1), of st] assms(2)
  have l: "loaded (fst (retrain_model ev st))"
    and i: "index (rating_matrix (fst (retrain_model ev st))) = []"
    by (simp_all add: pivot_table_Nil)
  have c: "get_recommendations ev' (fst (retrain_model ev st)) user_id top_n =
           (fst (retrain_model ev st), Inl ValueError)"
    by (simp add: get_recommendations_loaded [OF l] i)
  from a b c show ?thesis by blast
qed

theorem load_data_fails_only_unreachable_witness:
  "conn ex_empty_env = Connected ex_empty_db \<and> query ex_empty_db = []
   \<and> load_data Unreachable Map.empty = Inl DBError
   \<and> load_data (conn ex_empty_env) Map.empty = Inr ([], [], pivot_table [], Map.empty)
   \<and> get_recommendations ex_env (fst (retrain_model ex_empty_env ex_state)) 1 5 =
           (fst (retrain_model ex_empty_env ex_state), Inl ValueError)"
proof -
  have h1: "conn ex_empty_env = Connected ex_empty_db" by (simp add: ex_empty_env_def)
  have h2: "query ex_empty_db = []" by code_simp
  show ?thesis using h1 h2 load_data_fails_only_unreachable [OF h1 h2, of Map.empty ex_env ex_state 1 5] by blast
qed

section \<open>Unknown users\<close>

text \<open>
  Claim C4, as the spec states it: a known user with zero ratings is in the rating matrix
  and is not rejected. User 4 of the small store is in the \<open>User\<close> table and has
  rated nothing; \<open>get_recommendations\<close> rejects user 4 with \<open>ValueError\<close>.
\<close>

theorem unrated_user_rejected:
  "4 \<in> set (User ex_db) \<and> \<not> isl (module_init ex_env Absent)
   \<and> snd (get_recommendations ex_env ex_state 4 5) = Inl ValueError"
  by code_simp

text \<open>
  Claim C4, amended. With a model loaded, \<open>get_recommendations\<close> fails with
  \<open>ValueError\<close> exactly when the user is absent from the index of the rating matrix,
  and the index of a rating matrix is the set of users with at least one row in the
  rating feed.
\<close>

theorem unknown_user_iff_absent_from_index:
  assumes "loaded st"
  shows "(snd (get_recommendations ev st user_id top_n) = Inl ValueError
            \<longleftrightarrow> user_id \<notin> set (index (rating_matrix st)))
       \<and> set (index (pivot_table df)) = userId ` set df"
  by (simp add: get_recommendations_loaded [OF assms] index_pivot_table)

theorem unknown_user_iff_absent_from_index_witness:
  "loaded ex_state
   \<and> ((snd (get_recommendations ex_env ex_state 4 5) = Inl ValueError)
        = (4 \<notin> set (index (rating_matrix ex_state))))
   \<and> set (index (pivot_table (query ex_db))) = userId ` set (query ex_db)"
proof -
  have h: "loaded ex_state" by code_simp
  show ?thesis using h unknown_user_iff_absent_from_index [OF h, of ex_env 4 5 "query ex_db"] by blast
qed

section \<open>Size and quality floor of the result\<close>

text \<open>
  Claim C5. For a user of the rating matrix, \<open>get_recommendations\<close> returns a list; it
  has at most \<open>top_n\<close> items, none when \<open>top_n\<close> is zero (or negative), and every item
  has a predicted rating of at least 3.0.
\<close>

theorem recommendations_bounded_and_floored:
  assumes "loaded st" and "user_id \<in> set (index (rating_matrix st))"
  shows "\<exists>recs. snd (get_recommendations ev st user_id top_n) = Inr recs
           \<and> length recs \<le> nat top_n \<and> (top_n \<le> 0 \<longrightarrow> recs = [])
           \<and> (\<forall>r \<in> set recs. 3 \<le> predicted_rating r)"
proof -
  define recs where "recs = snd (recommend_known st user_id top_n)"
  define sel where "sel = nlargest top_n snd (predictions_of (algo st) user_id
          (movies_no_valoradas_of (rating_matrix st) user_id))"
  have r: "snd (get_recommendations ev st user_id top_n) = Inr recs"
    using assms by (simp add: get_recommendations_loaded recs_def)
  have m: "map predicted_rating recs = map (\<lambda>p. round2 (snd p)) sel"
    unfolding recs_def sel_def by (rule recommend_known_ratings)
  from m have "length recs = length sel" using map_eq_imp_length_eq by blast
  then have l: "length recs \<le> nat top_n" using nlargest_length [of top_n snd] by (simp add: sel_def)
  from l have z: "top_n \<le> 0 \<longrightarrow> recs = []" by auto
  have f: "\<forall>r \<in> set recs. 3 \<le> predicted_rating r"
  proof
    fix r assume "r \<in> set recs"
    then have "predicted_rating r \<in> set (map predicted_rating recs)" by simp
    with m obtain p where p: "p \<in> set sel" and e: "predicted_rating r = round2 (snd p)" by auto
    from p have "p \<in> set (predictions_of (algo st) user_id
          (movies_no_valoradas_of (rating_matrix st) user_id))"
      unfolding sel_def by (rule subsetD [OF nlargest_subset])
    then have "3 \<le> snd p" using predictions_of_floor by blast
    then show "3 \<le> predicted_rating r" unfolding e by (rule round2_ge_3)
  qed
  from r l z f show ?thesis by blast
qed

theorem recommendations_bounded_and_floored_witness:
  "loaded ex_state \<and> 1 \<in> set (index (rating_matrix ex_state))
   \<and> (\<exists>recs. snd (get_recommendations ex_env ex_state 1 5) = Inr recs
           \<and> length recs \<le> nat 5 \<and> ((5::int) \<le> 0 \<longrightarrow> recs = [])
           \<and> (\<forall>r \<in> set recs. 3 \<le> predicted_rating r))"
proof -
  have h1: "loaded ex_state" by code_simp
  have h2: "1 \<in> set (index (rating_matrix ex_state))" by code_simp
  show ?thesis using h1 h2 recommendations_bounded_and_floored [OF h1 h2, of ex_env 5] by blast
qed

section \<open>Recommendation is read-only\<close>

text \<open>
  Claim C8. In every state the process can reach, a call of \<open>get_recommendations\<close>
  leaves the model, the rating matrix, the movie index and the genre cache (and the file)
  exactly as they were: the write to the genre cache in the second rule is never reached,
  because \<open>load_data\<close> has put a non-empty genre set there for every movie of the index.
\<close>

theorem get_recommendations_frame:
  assumes "reachable st"
  shows "fst (get_recommendations ev st user_id top_n) = st"
  using reachable_inv [OF assms] by (rule get_recommendations_read_only)

theorem get_recommendations_frame_witness:
  "reachable ex_state \<and> fst (get_recommendations ex_env ex_state 1 5) = ex_state"
proof -
  have h: "reachable ex_state" using ex_state_init by (rule reachable.init)
  show ?thesis using h get_recommendations_frame [OF h, of ex_env 1 5] by blast
qed

section \<open>Rating matrix and similarity model of one snapshot\<close>

text \<open>
  Claim C1, as the spec states it: restoring a persisted model never pairs a stale
  similarity model with a freshly loaded matrix. It does. A start on the earlier store
  trains a model and pickles it; ratings are added; the next start restores the pickled
  model and builds the rating matrix from the current feed: user 2 and movie 20 are in
  the matrix, and the index of the restored model does not know movie 20.
\<close>

theorem stale_model_with_fresh_matrix:
  "module_init ex_old_env Absent = Inr ex_old_state
   \<and> recommender_pkl ex_old_state = Pickled ex_old_model
   \<and> module_init ex_env (Pickled ex_old_model) = Inr ex_stale_state
   \<and> \<not> same_snapshot ex_stale_state
   \<and> 2 \<in> set (index (rating_matrix ex_stale_state))
   \<and> 20 \<in> set (columns (rating_matrix ex_stale_state))
   \<and> inner_iid_of (algo ex_stale_state) 20 = Inl ValueError"
proof -
  have "\<not> (case algo ex_stale_state of
             None \<Rightarrow> False
           | Some a \<Rightarrow> (case knn_trainset a of
                          None \<Rightarrow> False
                        | Some ts \<Rightarrow> index (rating_matrix ex_stale_state)
                                      = index (pivot (raw_ratings ts))))"
    by code_simp
  with same_snapshot_index [of ex_stale_state] have n: "\<not> same_snapshot ex_stale_state"
    by blast
  have u: "2 \<in> set (index (rating_matrix ex_stale_state))" by code_simp
  have m: "20 \<in> set (columns (rating_matrix ex_stale_state))" by code_simp
  have k: "inner_iid_of (algo ex_stale_state) 20 = Inl ValueError" by code_simp
  from ex_old_init ex_old_pickled ex_stale_init n u m k show ?thesis by blast
qed

text \<open>
  Claim C1, amended. After a successful \<open>retrain_model\<close>, and after a start that finds
  no readable \<open>recommender.pkl\<close>, the rating matrix and the model that
  \<open>get_recommendations\<close> consults are built from the same snapshot of the feed: the
  matrix is the pivot of the fetched data frame, the training set of the model is built
  from that data frame, and its similarity matrix is the one fitted on that training set.
  A start that restores \<open>recommender.pkl\<close> takes the model from the file and builds the
  rating matrix from the current feed. A call of \<open>get_recommendations\<close> on a loaded
  model changes neither of the two.
\<close>

theorem snapshot_after_retrain_or_cold_start:
  "(retrain_model ev st = (st', Inr a) \<longrightarrow>
        same_snapshot st' \<and> algo st' = Some a
        \<and> (\<exists>d. conn ev = Connected d \<and> built_from (fit ev) (query d) st'))
   \<and> (module_init ev pkl = Inr st0 \<and> (pkl = Absent \<or> pkl = Corrupt) \<longrightarrow>
        same_snapshot st0
        \<and> (\<exists>d. conn ev = Connected d \<and> built_from (fit ev) (query d) st0))
   \<and> (module_init ev (Pickled b) = Inr st1 \<and> conn ev = Connected d \<longrightarrow>
        algo st1 = Some b \<and> rating_matrix st1 = pivot_table (query d))
   \<and> (loaded st \<longrightarrow>
        algo (fst (get_recommendations ev st user_id top_n)) = algo st
        \<and> rating_matrix (fst (get_recommendations ev st user_id top_n)) = rating_matrix st)"
  using retrain_model_same_snapshot [of ev st st' a] module_init_cold [of ev pkl st0]
        retrain_model_built_from [of ev st st' a] module_init_cold_built_from [of ev pkl st0]
        module_init_Pickled [of ev b st1 d] get_recommendations_keeps_model [of st ev user_id top_n]
  by blast

theorem snapshot_after_retrain_or_cold_start_witness:
  "retrain_model ex_env ex_state = (ex_retrained, Inr ex_model)
   \<and> same_snapshot ex_retrained \<and> algo ex_retrained = Some ex_model
   \<and> built_from (fit ex_env) (query ex_db) ex_retrained
   \<and> module_init ex_env Absent = Inr ex_state \<and> same_snapshot ex_state
   \<and> built_from (fit ex_env) (query ex_db) ex_state
   \<and> module_init ex_env (Pickled ex_old_model) = Inr ex_stale_state
   \<and> conn ex_env = Connected ex_db
   \<and> algo ex_stale_state = Some ex_old_model
   \<and> rating_matrix ex_stale_state = pivot_table (query ex_db)
   \<and> loaded ex_state
   \<and> algo (fst (get_recommendations ex_env ex_state 1 5)) = algo ex_state
   \<and> rating_matrix (fst (get_recommendations ex_env ex_state 1 5)) = rating_matrix ex_state"
proof -
  have c: "conn ex_env = Connected ex_db" by (simp add: ex_env_def)
  have l: "loaded ex_state" by code_simp
  note t = snapshot_after_retrain_or_cold_start [of ex_env ex_state ex_retrained ex_model Absent ex_state ex_old_model
            ex_stale_state ex_db 1 5]
  from t ex_retrain c have b1: "built_from (fit ex_env) (query ex_db) ex_retrained" by auto
  from t ex_state_init c have b2: "built_from (fit ex_env) (query ex_db) ex_state" by auto
  show ?thesis
    using ex_retrain ex_state_init ex_stale_init c l b1 b2 t
    by blast
qed

section \<open>Failure of a retrain\<close>

text \<open>
  Claim C2, as the spec states it: a retrain that fails leaves the live state entirely
  unchanged. On the state of the earlier store, a retrain in which training fails reports
  the error and has replaced the data frame and the rating matrix by those of the new
  feed; the live model, which knew movie 10, is now an unfitted object.
\<close>

theorem failed_retrain_changes_state:
  "isl (snd (retrain_model ex_fit_fails ex_old_state))
   \<and> data (fst (retrain_model ex_fit_fails ex_old_state)) \<noteq> data ex_old_state
   \<and> index (rating_matrix (fst (retrain_model ex_fit_fails ex_old_state)))
        \<noteq> index (rating_matrix ex_old_state)
   \<and> inner_iid_of (algo ex_old_state) 10 = Inr 0
   \<and> inner_iid_of (algo (fst (retrain_model ex_fit_fails ex_old_state))) 10 = Inl AttributeError"
  by code_simp

text \<open>
  Claim C2, amended. A retrain is atomic with respect to a failure of the feed fetch
  only: when the store cannot be reached, \<open>retrain_model\<close> reports the error and
  leaves the whole state unchanged. Once the feed is fetched, the data frame, the movie
  index, the rating matrix and the genre cache are those of the new feed, whatever
  happens in training and persistence afterwards; a failure of training is reported to
  the caller as the error of \<open>fit\<close>, a failure of the dump as its error, and only when
  both succeed the trained model is returned.
\<close>

theorem retrain_atomic_for_fetch_failure_only:
  "(conn ev = Unreachable \<longrightarrow> retrain_model ev st = (st, Inl DBError))
   \<and> (conn ev = Connected d \<longrightarrow>
        data (fst (retrain_model ev st)) = query d
        \<and> movie_info (fst (retrain_model ev st)) = movie_info_of (query d)
        \<and> rating_matrix (fst (retrain_model ev st)) = pivot_table (query d)
        \<and> movie_genres_cache (fst (retrain_model ev st)) =
             fill_cache (movie_genres_cache st) (movie_info_of (query d))
        \<and> (fit ev (build_full_trainset (query d)) = Inl e \<longrightarrow>
              snd (retrain_model ev st) = Inl e)
        \<and> (fit ev (build_full_trainset (query d)) = Inr s \<and> pickle_dump ev \<noteq> Dumped \<longrightarrow>
              snd (retrain_model ev st) = Inl IOError)
        \<and> (fit ev (build_full_trainset (query d)) = Inr s \<and> pickle_dump ev = Dumped \<longrightarrow>
              snd (retrain_model ev st) = Inr (trained_model (query d) s)))"
proof -
  have u: "conn ev = Unreachable \<longrightarrow> retrain_model ev st = (st, Inl DBError)"
    using retrain_model_Unreachable [of ev st] by blast
  have f: "conn ev = Connected d \<longrightarrow>
        data (fst (retrain_model ev st)) = query d
        \<and> movie_info (fst (retrain_model ev st)) = movie_info_of (query d)
        \<and> rating_matrix (fst (retrain_model ev st)) = pivot_table (query d)
        \<and> movie_genres_cache (fst (retrain_model ev st)) =
             fill_cache (movie_genres_cache st) (movie_info_of (query d))"
    using retrain_model_fields [of ev d st] by blast
  have r1: "conn ev = Connected d \<longrightarrow> fit ev (build_full_trainset (query d)) = Inl e \<longrightarrow>
              snd (retrain_model ev st) = Inl e"
    by (simp add: retrain_model_def load_data_Connected Let_def)
  have r2: "conn ev = Connected d \<longrightarrow>
              fit ev (build_full_trainset (query d)) = Inr s \<and> pickle_dump ev \<noteq> Dumped \<longrightarrow>
              snd (retrain_model ev st) = Inl IOError"
    by (auto simp: retrain_model_def load_data_Connected Let_def split: dump_outcome.splits)
  have r3: "conn ev = Connected d \<longrightarrow>
              fit ev (build_full_trainset (query d)) = Inr s \<and> pickle_dump ev = Dumped \<longrightarrow>
              snd (retrain_model ev st) = Inr (trained_model (query d) s)"
    by (simp add: retrain_model_def load_data_Connected Let_def trained_model_def)
  from u f r1 r2 r3 show ?thesis by blast
qed

theorem retrain_atomic_for_fetch_failure_only_witness:
  "conn ex_unreachable = Unreachable
   \<and> retrain_model ex_unreachable ex_state = (ex_state, Inl DBError)
   \<and> conn ex_fit_fails = Connected ex_db
   \<and> data (fst (retrain_model ex_fit_fails ex_old_state)) = query ex_db
   \<and> movie_info (fst (retrain_model ex_fit_fails ex_old_state)) = movie_info_of (query ex_db)
   \<and> rating_matrix (fst (retrain_model ex_fit_fails ex_old_state)) = pivot_table (query ex_db)
   \<and> movie_genres_cache (fst (retrain_model ex_fit_fails ex_old_state)) =
        fill_cache (movie_genres_cache ex_old_state) (movie_info_of (query ex_db))
   \<and> fit ex_fit_fails (build_full_trainset (query ex_db)) = Inl FitError
   \<and> snd (retrain_model ex_fit_fails ex_old_state) = Inl FitError
   \<and> conn ex_dump_fails = Connected ex_db
   \<and> fit ex_dump_fails (build_full_trainset (query ex_db)) = Inr (\<lambda>x y. if x = y then 1 else 1/2)
   \<and> pickle_dump ex_dump_fails \<noteq> Dumped
   \<and> snd (retrain_model ex_dump_fails ex_old_state) = Inl IOError
   \<and> conn ex_env = Connected ex_db
   \<and> fit ex_env (build_full_trainset (query ex_db)) = Inr (\<lambda>x y. if x = y then 1 else 1/2)
   \<and> pickle_dump ex_env = Dumped
   \<and> snd (retrain_model ex_env ex_old_state) =
        Inr (trained_model (query ex_db) (\<lambda>x y. if x = y then 1 else 1/2))"
proof -
  have u: "conn ex_unreachable = Unreachable" by (simp add: ex_unreachable_def)
  have c: "conn ex_fit_fails = Connected ex_db" by (simp add: ex_fit_fails_def ex_env_def)
  have ff: "fit ex_fit_fails (build_full_trainset (query ex_db)) = Inl FitError"
    by (simp add: ex_fit_fails_def)
  have cd: "conn ex_dump_fails = Connected ex_db" by (simp add: ex_dump_fails_def ex_env_def)
  have fd: "fit ex_dump_fails (build_full_trainset (query ex_db)) = Inr (\<lambda>x y. if x = y then 1 else 1/2)"
    by (simp add: ex_dump_fails_def ex_env_def)
  have pd: "pickle_dump ex_dump_fails \<noteq> Dumped" by (simp add: ex_dump_fails_def)
  have ce: "conn ex_env = Connected ex_db" by (simp add: ex_env_def)
  have fe: "fit ex_env (build_full_trainset (query ex_db)) = Inr (\<lambda>x y. if x = y then 1 else 1/2)"
    by (simp add: ex_env_def)
  have pe: "pickle_dump ex_env = Dumped" by (simp add: ex_env_def)
  show ?thesis
    using u c ff cd fd pd ce fe pe
      retrain_atomic_for_fetch_failure_only [of ex_unreachable ex_state ex_db]
      retrain_atomic_for_fetch_failure_only [of ex_fit_fails ex_old_state ex_db FitError]
      retrain_atomic_for_fetch_failure_only [of ex_dump_fails ex_old_state ex_db _ "\<lambda>x y. if x = y then 1 else 1/2"]
      retrain_atomic_for_fetch_failure_only [of ex_env ex_old_state ex_db _ "\<lambda>x y. if x = y then 1 else 1/2"]
    by simp
qed

section \<open>The predictor\<close>

text \<open>
  Claim C6. For a model that \<open>retrain_model\<close> returns (reader scale 0.5 to 5.0),
  every estimate that \<open>predict\<close> returns lies in the closed interval from 0.5 to 5.0.
\<close>

theorem predict_clamped:
  assumes "retrain_model ev st = (st', Inr a)" and "predict a u i = Inr e"
  shows "1/2 \<le> e \<and> e \<le> 5"
proof -
  from retrain_model_success [OF assms(1)] obtain d s where
    a: "a = \<lparr>knn_k = 10, knn_min_k = 3, min_sim = 0,
             knn_trainset = Some (build_full_trainset (query d)), sim = s\<rparr>" by blast
  from assms(2) show ?thesis
    by (auto simp: predict_def a build_full_trainset_def Let_def)
qed

theorem predict_clamped_witness:
  "retrain_model ex_env ex_state = (ex_retrained, Inr ex_model)
   \<and> predict ex_model 2 20 = Inr (9/2) \<and> (1/2 :: real) \<le> 9/2 \<and> (9/2 :: real) \<le> 5"
proof -
  have p: "predict ex_model 2 20 = Inr (9/2)" by code_simp
  show ?thesis using ex_retrain p predict_clamped [OF ex_retrain p] by blast
qed



section \<open>The neighbour-similarity explanation\<close>



end
